theory Spec2Isabelle
  imports Complex_Main "HOL-Library.Sublist"
begin

section \<open>The WinCNC post-processor (wincnc\_post.py)\<close>

text \<open>
  A shallow embedding of \<^verbatim>\<open>src/post-processors/wincnc_post.py\<close>.

  Python strings are \<^typ>\<open>string\<close>; the numeric parameter values of a path command are
  \<^typ>\<open>real\<close> (values are compared with HOL equality, so a NaN is outside the model).
  The module-level variables of the script, which every function reads and some functions
  assign through \<^verbatim>\<open>global\<close>, are the fields of the record \<open>globals\<close>; it is passed
  to every function and returned updated. What the script prints and the files it writes are
  the record \<open>io\<close>, passed along in the same way by the two functions that print or write.
\<close>

subsection \<open>Python values and exceptions\<close>

datatype pyerr = TypeError | IndexError | KeyError | AttributeError | SystemExit

definition NL :: string where
  "NL = [CHR 0x0A]"

definition TAB :: string where
  "TAB = [CHR 0x09]"

definition QUOTE :: string where
  "QUOTE = [CHR 0x27]"

definition DQUOTE :: string where
  "DQUOTE = [CHR 0x22]"

text \<open>\<^verbatim>\<open>str(n)\<close> for a Python integer.\<close>

fun str_nat :: "nat \<Rightarrow> string" where
  "str_nat n =
     (if n < 10 then [char_of (48 + n)]
      else str_nat (n div 10) @ [char_of (48 + n mod 10)])"

declare str_nat.simps [simp del]

definition str_int :: "int \<Rightarrow> string" where
  "str_int i = (if i < 0 then ''-'' @ str_nat (nat (- i)) else str_nat (nat i))"

text \<open>\<^verbatim>\<open>int(x)\<close> for a float: truncation towards zero.\<close>

definition py_int :: "real \<Rightarrow> int" where
  "py_int x = (if 0 \<le> x then \<lfloor>x\<rfloor> else \<lceil>x\<rceil>)"

text \<open>
  \<^verbatim>\<open>s.splitlines(keepends)\<close>: the text is cut after every line boundary (a line feed,
  a carriage return, a carriage return followed by a line feed, and the other boundary
  characters Python knows below code point 256); a last line without boundary is kept, and there
  is no empty last line.
\<close>

definition is_linebreak :: "char \<Rightarrow> bool" where
  "is_linebreak c \<longleftrightarrow>
     c \<in> {CHR 0x0A, CHR 0x0B, CHR 0x0C, CHR 0x0D, CHR 0x1C, CHR 0x1D, CHR 0x1E, CHR 0x85}"

fun splitlines_from :: "bool \<Rightarrow> string \<Rightarrow> string \<Rightarrow> string list" where
  "splitlines_from keepends cur [] = (if cur = [] then [] else [cur])"
| "splitlines_from keepends cur (c # cs) =
     (if c = CHR 0x0D then
        (case cs of
           [] \<Rightarrow> [cur @ (if keepends then [c] else [])]
         | d # ds \<Rightarrow>
             if d = CHR 0x0A
             then (cur @ (if keepends then [c, d] else [])) # splitlines_from keepends [] ds
             else (cur @ (if keepends then [c] else [])) # splitlines_from keepends [] cs)
      else if is_linebreak c
      then (cur @ (if keepends then [c] else [])) # splitlines_from keepends [] cs
      else splitlines_from keepends (cur @ [c]) cs)"

definition splitlines :: "string \<Rightarrow> bool \<Rightarrow> string list" where
  "splitlines s keepends = splitlines_from keepends [] s"

text \<open>\<^verbatim>\<open>s.replace(old, new)\<close> for one-character \<^verbatim>\<open>old\<close> and \<^verbatim>\<open>new\<close>.\<close>

definition replace :: "string \<Rightarrow> char \<Rightarrow> char \<Rightarrow> string" where
  "replace s old new = map (\<lambda>c. if c = old then new else c) s"

subsection \<open>The data the script receives\<close>

text \<open>A \<^verbatim>\<open>Path.Command\<close>: a name and a dictionary from parameter letters to numbers.\<close>

record command =
  Name :: string
  Parameters :: "string \<rightharpoonup> real"

text \<open>
  The objects of the document are duck-typed: the script asks \<^verbatim>\<open>hasattr\<close> for
  \<^verbatim>\<open>Group\<close>, \<^verbatim>\<open>Path\<close>, \<^verbatim>\<open>Active\<close>, \<^verbatim>\<open>Base\<close>,
  \<^verbatim>\<open>CoolantMode\<close>, and reads \<^verbatim>\<open>Tool.Label\<close>. An attribute that may be missing is an
  option; \<open>Path\<close> holds \<^verbatim>\<open>obj.Path.Commands\<close>, \<open>Tool\<close> holds \<^verbatim>\<open>obj.Tool.Label\<close>.
\<close>

record base =
  BaseActive :: "bool option"
  BaseCoolantMode :: "string option"

datatype pathobj =
  PathObj (ObjName: string) (Label: string) (Group: "pathobj list option")
    (Path: "command list option") (Active: "bool option") (Base: "base option")
    (CoolantMode: "string option") (Tool: "string option")

text \<open>The namespace \<^verbatim>\<open>parser.parse_args\<close> returns.\<close>

record args =
  no_header :: bool
  no_comments :: bool
  line_numbers :: bool
  no_show_editor :: bool
  precision :: string
  preamble :: "string option"
  postamble :: "string option"
  inches :: bool
  modal :: bool
  axis_modal :: bool
  no_tlo :: bool

text \<open>
  \<^verbatim>\<open>parser.parse_args(shlex.split(argstring))\<close> returns a namespace, raises an
  \<^verbatim>\<open>Exception\<close> (\<^verbatim>\<open>shlex\<close> on an unbalanced quote), or leaves through
  \<^verbatim>\<open>SystemExit\<close> (\<^verbatim>\<open>argparse\<close> on an unknown flag), which is no
  \<^verbatim>\<open>Exception\<close>.
\<close>

datatype parse_result = Parsed args | Raised | Exited

text \<open>
  What the script takes from its collaborators (FreeCAD, argparse, the clock, the editor dialog),
  none of which is part of the repository: they are parameters of the model.
\<close>

record env =
  parse_args :: "string \<Rightarrow> parse_result"
  module__name :: string
  now :: string
  GuiUp :: bool
  GCodeEditorDialog :: "string \<Rightarrow> string option"
  Length_getValueAs :: "real \<Rightarrow> string \<Rightarrow> real"
  Velocity_getValueAs :: "real \<Rightarrow> string \<Rightarrow> real"
  format_float :: "real \<Rightarrow> string \<Rightarrow> string"

subsection \<open>The module-level variables\<close>

record globals =
  OUTPUT_COMMENTS :: bool
  OUTPUT_HEADER :: bool
  OUTPUT_LINE_NUMBERS :: bool
  SHOW_EDITOR :: bool
  MODAL :: bool
  USE_TLO :: bool
  OUTPUT_DOUBLES :: bool
  LINENR :: int
  SKIP_FIRST_TOOLCHANGE :: bool
  UNITS :: string
  UNIT_SPEED_FORMAT :: string
  UNIT_FORMAT :: string
  PRECISION :: string
  PREAMBLE :: string
  POSTAMBLE :: string
  first_tool_change_skipped :: bool

text \<open>What the process has printed, and the files it has written.\<close>

record io =
  stdout :: "string list"
  files :: "string \<rightharpoonup> string"

definition COMMAND_SPACE :: string where
  "COMMAND_SPACE = '' ''"

definition PRE_OPERATION :: string where
  "PRE_OPERATION = ''''"

definition POST_OPERATION :: string where
  "POST_OPERATION = ''''"

definition PRE_TOOL_CHANGE :: string where
  "PRE_TOOL_CHANGE =
     ''G28Z'' @ TAB @ TAB @ TAB @ TAB @ ''[Go to Machine Z0]'' @ NL @
     ''G53Z'' @ TAB @ TAB @ TAB @ TAB @ ''[Lift Z (Rapid)]'' @ NL @
     ''M5'' @ TAB @ TAB @ TAB @ TAB @ ''[Turn Spindle Off]'' @ NL @
     ''G53 X0 Y0''"

text \<open>\<^verbatim>\<open>TOOL_CHANGE_NOTIFICATION.format(tool_num = label)\<close>.\<close>

definition TOOL_CHANGE_NOTIFICATION_format :: "string \<Rightarrow> string" where
  "TOOL_CHANGE_NOTIFICATION_format tool_num =
     NL @ ''G5 T2 M'' @ DQUOTE @ ''Please Change Tool to '' @ QUOTE @ tool_num @ QUOTE @
     ''. Press OK when done (Keep Dust Boot Off!).'' @ DQUOTE @ NL"

definition TOOL_CHANGE :: string where
  "TOOL_CHANGE =
     ''G5 T2 M'' @ DQUOTE @ ''Press OK to Measure Tool.'' @ DQUOTE @ NL @
     ''L21'' @ TAB @ TAB @ TAB @ TAB @ ''[Disable Soft Limits]'' @ NL @
     ''L210Z'' @ TAB @ TAB @ TAB @ TAB @ ''[Select Z Alt Low Limits]'' @ NL @
     ''G53 Z0'' @ NL @
     ''G53 X{TMX}Y{TMY}'' @ TAB @ TAB @ ''[Move to Tool Measure Switch X/Y Coordinates]'' @ NL @
     ''L91 G0 Z{TMD}'' @ NL @
     ''L91 G1 Z-9 M28 F20 G31'' @ TAB @ TAB @ ''[Perform Measurement of Tool]'' @ NL @
     ''M37 Z{TM1} H{TP1}'' @ TAB @ TAB @ ''[Set New Tool Offset]'' @ NL @
     ''G53 Z0'' @ NL @
     ''L91 G1 Z0 F50'' @ NL @
     ''L212'' @ TAB @ TAB @ TAB @ TAB @ ''[Select Primary Limits for All Axes]'' @ NL @
     ''G0'' @ NL @
     ''G53 X0 Y0'' @ NL @
     ''G5 T2 M'' @ DQUOTE @ ''Please Replace Dust Boot. Press OK when done.'' @ DQUOTE @ NL @
     ''G5 T2 M'' @ DQUOTE @ ''Continue Job?'' @ DQUOTE @ NL"

text \<open>The values the module-level variables have when the module has been loaded.\<close>

definition initial_globals :: globals where
  "initial_globals =
     \<lparr> OUTPUT_COMMENTS = True, OUTPUT_HEADER = True, OUTPUT_LINE_NUMBERS = False,
       SHOW_EDITOR = True, MODAL = False, USE_TLO = True, OUTPUT_DOUBLES = True,
       LINENR = 100, SKIP_FIRST_TOOLCHANGE = True,
       UNITS = ''G20'', UNIT_SPEED_FORMAT = ''in/min'', UNIT_FORMAT = ''in'',
       PRECISION = ''7'',
       PREAMBLE =
         ''G54'' @ TAB @ TAB @ ''[Using G54 Workspace]'' @ NL @
         ''G40'' @ TAB @ TAB @ ''[Tool Cutter Compensation Off]'' @ NL @
         ''G49'' @ TAB @ TAB @ ''[Tool Length Offset Off]'' @ NL @
         ''G90'' @ TAB @ TAB @ ''[Absolute Mode]'' @ NL @
         ''G53 Z0'' @ TAB @ TAB @ ''[Lift Z to top]'' @ NL,
       POSTAMBLE =
         ''G53 Z0'' @ TAB @ TAB @ ''[Rapid Move Z to 0]'' @ NL @
         ''M05'' @ TAB @ TAB @ ''[Turn Spindle Off]'' @ NL,
       first_tool_change_skipped = False \<rparr>"

definition print :: "string \<Rightarrow> io \<Rightarrow> io" where
  "print s w = w\<lparr>stdout := stdout w @ [s]\<rparr>"

subsection \<open>processArguments\<close>

text \<open>
  Every flag only ever switches its variable one way; \<^verbatim>\<open>PRECISION\<close> is assigned on every
  call. A statement \<^verbatim>\<open>if args.flag: VAR = value\<close> assigns to \<open>VAR\<close> the value or what
  \<open>VAR\<close> held. The function returns \<^verbatim>\<open>False\<close> when parsing raised an
  \<^verbatim>\<open>Exception\<close>.
\<close>

definition processArguments ::
  "env \<Rightarrow> string \<Rightarrow> globals \<Rightarrow> io \<Rightarrow> (pyerr + bool) \<times> globals \<times> io" where
  "processArguments e argstring g w =
     (case parse_args e argstring of
        Raised \<Rightarrow> (Inr False, g, w)
      | Exited \<Rightarrow> (Inl SystemExit, g, w)
      | Parsed a \<Rightarrow>
          let g = g\<lparr>OUTPUT_HEADER := (if no_header a then False else OUTPUT_HEADER g)\<rparr>;
              g = g\<lparr>OUTPUT_COMMENTS := (if no_comments a then False else OUTPUT_COMMENTS g)\<rparr>;
              g = g\<lparr>OUTPUT_LINE_NUMBERS :=
                      (if line_numbers a then True else OUTPUT_LINE_NUMBERS g)\<rparr>;
              g = g\<lparr>SHOW_EDITOR := (if no_show_editor a then False else SHOW_EDITOR g)\<rparr>;
              w = print (''Show editor = '' @ (if SHOW_EDITOR g then ''1'' else ''0'')) w;
              g = g\<lparr>PRECISION := precision a\<rparr>;
              g = g\<lparr>PREAMBLE := (case preamble a of None \<Rightarrow> PREAMBLE g | Some p \<Rightarrow> p)\<rparr>;
              g = g\<lparr>POSTAMBLE := (case postamble a of None \<Rightarrow> POSTAMBLE g | Some p \<Rightarrow> p)\<rparr>;
              g = g\<lparr>UNITS := (if inches a then ''G20'' else UNITS g),
                     UNIT_SPEED_FORMAT := (if inches a then ''in/min'' else UNIT_SPEED_FORMAT g),
                     UNIT_FORMAT := (if inches a then ''in'' else UNIT_FORMAT g),
                     PRECISION := (if inches a then ''4'' else PRECISION g)\<rparr>;
              g = g\<lparr>MODAL := (if modal a then True else MODAL g)\<rparr>;
              g = g\<lparr>USE_TLO := (if no_tlo a then False else USE_TLO g)\<rparr>;
              w = (if axis_modal a then print ''here'' w else w);
              g = g\<lparr>OUTPUT_DOUBLES := (if axis_modal a then False else OUTPUT_DOUBLES g)\<rparr>
          in (Inr True, g, w))"

subsection \<open>linenumber\<close>

definition linenumber :: "globals \<Rightarrow> string \<times> globals" where
  "linenumber g =
     (if OUTPUT_LINE_NUMBERS g
      then (''N'' @ str_int (LINENR g + 10) @ '' '', g\<lparr>LINENR := LINENR g + 10\<rparr>)
      else ('''', g))"

subsection \<open>parse\<close>

text \<open>
  The local variable \<^verbatim>\<open>out\<close> of \<^verbatim>\<open>parse\<close> starts as a string, and one branch rebinds
  it to a list. On a string \<^verbatim>\<open>out += s\<close> appends the text; on a list it appends each
  character of \<^verbatim>\<open>s\<close> as an element of its own, so the list is a list of characters.
\<close>

datatype pyout = Str string | Lst "char list"

fun iadd :: "pyout \<Rightarrow> string \<Rightarrow> pyout" where
  "iadd (Str s) t = Str (s @ t)"
| "iadd (Lst l) t = Lst (l @ t)"

text \<open>The local variables of \<^verbatim>\<open>parse\<close> that live across the iterations of its loop.\<close>

record locals =
  out :: pyout
  lastcommand :: "string option"
  currLocation :: "string \<rightharpoonup> real"

definition params :: "string list" where
  "params = [''X'', ''Y'', ''Z'', ''A'', ''B'', ''C'', ''I'', ''J'', ''S'', ''T'', ''Q'', ''R'',
             ''F'', ''L'', ''H'', ''D'', ''P'']"

definition firstmove_Parameters :: "string \<rightharpoonup> real" where
  "firstmove_Parameters = [''X'' \<mapsto> - 1, ''Y'' \<mapsto> - 1, ''Z'' \<mapsto> - 1, ''F'' \<mapsto> 0]"

definition precision_string :: "globals \<Rightarrow> string" where
  "precision_string g = ''.'' @ PRECISION g @ ''f''"

text \<open>
  One iteration of \<^verbatim>\<open>for param in params\<close> (lines 408 to 431): the tokens it appends to
  \<^verbatim>\<open>outstring\<close>. The first test reads \<^verbatim>\<open>currLocation['F']\<close>, a
  \<^verbatim>\<open>KeyError\<close> if the key is missing; when the test fails, \<^verbatim>\<open>F\<close> goes down
  the \<^verbatim>\<open>elif\<close> chain like any other letter.
\<close>

definition param_other :: "env \<Rightarrow> globals \<Rightarrow> (string \<rightharpoonup> real) \<Rightarrow> string \<Rightarrow> real \<Rightarrow> string list" where
  "param_other e g loc param v =
     (if param = ''T'' then [param @ str_int (py_int v)]
      else if param = ''H'' then [param @ str_int (py_int v)]
      else if param = ''D'' then [param @ str_int (py_int v)]
      else if param = ''S'' then [param @ str_int (py_int v)]
      else if \<not> OUTPUT_DOUBLES g \<and> loc param \<noteq> None \<and> loc param = Some v then []
      else [param @ format_float e (Length_getValueAs e v (UNIT_FORMAT g)) (precision_string g)])"

definition param_tokens ::
  "env \<Rightarrow> globals \<Rightarrow> command \<Rightarrow> (string \<rightharpoonup> real) \<Rightarrow> string \<Rightarrow> pyerr + string list" where
  "param_tokens e g c loc param =
     (case Parameters c param of
        None \<Rightarrow> Inr []
      | Some v \<Rightarrow>
          if param = ''F'' then
            (case loc param of
               None \<Rightarrow> Inl KeyError
             | Some cur \<Rightarrow>
                 if cur \<noteq> v \<or> OUTPUT_DOUBLES g then
                   (if Name c \<notin> set [''G0'', ''G00''] then
                      (if Velocity_getValueAs e v (UNIT_SPEED_FORMAT g) > 0
                       then Inr [param @ format_float e
                                   (Velocity_getValueAs e v (UNIT_SPEED_FORMAT g))
                                   (precision_string g)]
                       else Inr [])
                    else Inr [])
                 else Inr (param_other e g loc param v))
          else Inr (param_other e g loc param v))"

fun add_params ::
  "env \<Rightarrow> globals \<Rightarrow> command \<Rightarrow> (string \<rightharpoonup> real) \<Rightarrow> string list \<Rightarrow> string list
    \<Rightarrow> pyerr + string list" where
  "add_params e g c loc [] outstring = Inr outstring"
| "add_params e g c loc (param # ps) outstring =
     (case param_tokens e g c loc param of
        Inl err \<Rightarrow> Inl err
      | Inr ts \<Rightarrow> add_params e g c loc ps (outstring @ ts))"

text \<open>\<^verbatim>\<open>for line in lines: out += linenumber() + line\<close>.\<close>

fun numbered_lines :: "string list \<Rightarrow> pyout \<Rightarrow> globals \<Rightarrow> pyout \<times> globals" where
  "numbered_lines [] ou g = (ou, g)"
| "numbered_lines (line # ls) ou g =
     (case linenumber g of (n, g') \<Rightarrow> numbered_lines ls (iadd ou (n @ line)) g')"

text \<open>
  The tool change (lines 438 to 462), reached after \<^verbatim>\<open>lastcommand\<close> and
  \<^verbatim>\<open>currLocation\<close> have been assigned. \<^verbatim>\<open>pathobj.Tool.Label\<close> is read after the first
  block has been appended.
\<close>

definition tool_change :: "string option \<Rightarrow> pyout \<Rightarrow> globals \<Rightarrow> (pyerr + pyout) \<times> globals" where
  "tool_change tool ou g =
     (if SKIP_FIRST_TOOLCHANGE g \<and> \<not> first_tool_change_skipped g
      then (Inr ou, g\<lparr>first_tool_change_skipped := True\<rparr>)
      else
        (case numbered_lines (splitlines PRE_TOOL_CHANGE True) ou g of
           (ou1, g1) \<Rightarrow>
             (case tool of
                None \<Rightarrow> (Inl AttributeError, g1)
              | Some label \<Rightarrow>
                  (case numbered_lines (splitlines TOOL_CHANGE True)
                          (iadd ou1 (TOOL_CHANGE_NOTIFICATION_format label)) g1 of
                     (ou2, g2) \<Rightarrow> (Inr ou2, g2)))))"

text \<open>Lines 472 to 481: the tokens that are left become one line.\<close>

definition emit_line :: "string list \<Rightarrow> pyout \<Rightarrow> globals \<Rightarrow> pyout \<times> globals" where
  "emit_line outstring ou g =
     (if length outstring \<ge> 1 then
        (case (if OUTPUT_LINE_NUMBERS g
               then (case linenumber g of (n, g') \<Rightarrow> (n # outstring, g'))
               else (outstring, g)) of
           (ws, g') \<Rightarrow> (iadd (foldl (\<lambda>o' w. iadd o' (w @ COMMAND_SPACE)) ou ws) NL, g'))
      else (ou, g))"

text \<open>
  The body of \<^verbatim>\<open>for c in pathobj.Path.Commands\<close> (lines 387 to 481). A
  \<^verbatim>\<open>continue\<close> returns the local variables as they are at that point.
\<close>

definition parse_command ::
  "env \<Rightarrow> string option \<Rightarrow> command \<Rightarrow> locals \<Rightarrow> globals \<Rightarrow> (pyerr + locals) \<times> globals" where
  "parse_command e tool c st g =
     (let command = Name c;
          outstring = [command];
          outstring = (if MODAL g \<and> Some command = lastcommand st then tl outstring else outstring)
      in
      case Name c of
        [] \<Rightarrow> (Inl IndexError, g)
      | ch # _ \<Rightarrow>
          if ch = CHR ''('' \<and> \<not> OUTPUT_COMMENTS g then (Inr st, g)
          else if ch = CHR ''('' \<and> outstring = [] then (Inl IndexError, g)
          else
            let outstring =
                  (if ch = CHR ''(''
                   then butlast outstring @
                          [replace (replace command CHR ''('' CHR ''['') CHR '')'' CHR '']'']
                   else outstring)
            in
            if Name c = ''G99'' then (Inr st, g)
            else
              (case add_params e g c (currLocation st) params outstring of
                 Inl err \<Rightarrow> (Inl err, g)
               | Inr outstring \<Rightarrow>
                   let st = st\<lparr>lastcommand := Some command,
                               currLocation := currLocation st ++ Parameters c\<rparr>
                   in
                   if command = ''M6'' then
                     (case tool_change tool (out st) g of
                        (Inl err, g') \<Rightarrow> (Inl err, g')
                      | (Inr ou, g') \<Rightarrow> (Inr (st\<lparr>out := ou\<rparr>), g'))
                   else if command = ''message'' \<and> OUTPUT_COMMENTS g \<and> outstring = []
                   then (Inl IndexError, g)
                   else
                     let st = (if command = ''message'' \<and> \<not> OUTPUT_COMMENTS g
                               then st\<lparr>out := Lst []\<rparr> else st);
                         outstring = (if command = ''message'' \<and> OUTPUT_COMMENTS g
                                      then tl outstring else outstring)
                     in
                     (case emit_line outstring (out st) g of
                        (ou, g') \<Rightarrow> (Inr (st\<lparr>out := ou\<rparr>), g'))))"

fun parse_Commands ::
  "env \<Rightarrow> string option \<Rightarrow> command list \<Rightarrow> locals \<Rightarrow> globals \<Rightarrow> (pyerr + pyout) \<times> globals" where
  "parse_Commands e tool [] st g = (Inr (out st), g)"
| "parse_Commands e tool (c # cs) st g =
     (case parse_command e tool c st g of
        (Inl err, g') \<Rightarrow> (Inl err, g')
      | (Inr st', g') \<Rightarrow> parse_Commands e tool cs st' g')"

text \<open>The local variables as \<^verbatim>\<open>parse\<close> sets them up on entry (lines 359 to 368).\<close>

definition initial_locals :: locals where
  "initial_locals =
     \<lparr> out = Str '''', lastcommand = None, currLocation = Map.empty ++ firstmove_Parameters \<rparr>"

text \<open>
  \<^verbatim>\<open>parse\<close> itself. In the group branch \<^verbatim>\<open>out\<close> is a string, and
  \<^verbatim>\<open>out += parse(p)\<close> with a list on the right raises \<^verbatim>\<open>TypeError\<close>.
\<close>

fun parse :: "env \<Rightarrow> pathobj \<Rightarrow> globals \<Rightarrow> (pyerr + pyout) \<times> globals"
  and parse_Group :: "env \<Rightarrow> pathobj list \<Rightarrow> string \<Rightarrow> globals \<Rightarrow> (pyerr + pyout) \<times> globals"
where
  "parse e (PathObj nm lbl (Some ps) pth act bs cm tool) g = parse_Group e ps '''' g"
| "parse e (PathObj nm lbl None None act bs cm tool) g = (Inr (Str ''''), g)"
| "parse e (PathObj nm lbl None (Some cs) act bs cm tool) g =
     parse_Commands e tool cs initial_locals g"
| "parse_Group e [] ou g = (Inr (Str ou), g)"
| "parse_Group e (p # ps) ou g =
     (case parse e p g of
        (Inl err, g') \<Rightarrow> (Inl err, g')
      | (Inr (Str s), g') \<Rightarrow> parse_Group e ps (ou @ s) g'
      | (Inr (Lst l), g') \<Rightarrow> (Inl TypeError, g'))"

subsection \<open>export\<close>

text \<open>\<^verbatim>\<open>gcode += linenumber() + text\<close>.\<close>

definition add_numbered :: "string \<Rightarrow> string \<Rightarrow> globals \<Rightarrow> string \<times> globals" where
  "add_numbered text gcode g = (case linenumber g of (n, g') \<Rightarrow> (gcode @ n @ text, g'))"

text \<open>\<^verbatim>\<open>for line in lines: gcode += linenumber() + line + ending\<close>.\<close>

fun gcode_lines :: "string list \<Rightarrow> string \<Rightarrow> string \<Rightarrow> globals \<Rightarrow> string \<times> globals" where
  "gcode_lines [] ending gcode g = (gcode, g)"
| "gcode_lines (line # ls) ending gcode g =
     (case add_numbered (line @ ending) gcode g of (gcode', g') \<Rightarrow> gcode_lines ls ending gcode' g')"

text \<open>The coolant mode of an object (lines 281 to 286).\<close>

definition coolantMode :: "pathobj \<Rightarrow> string" where
  "coolantMode obj =
     (case CoolantMode obj of
        Some m \<Rightarrow> m
      | None \<Rightarrow>
          (case Base obj of
             None \<Rightarrow> ''None''
           | Some b \<Rightarrow> (case BaseCoolantMode b of None \<Rightarrow> ''None'' | Some m \<Rightarrow> m)))"

text \<open>The two tests that skip an inactive operation (lines 245 to 250).\<close>

definition inactive :: "pathobj \<Rightarrow> bool" where
  "inactive obj \<longleftrightarrow>
     Active obj = Some False \<or>
     (case Base obj of None \<Rightarrow> False | Some b \<Rightarrow> BaseActive b = Some False)"

text \<open>The body of the loop over the objects (lines 242 to 309).\<close>

definition export_object ::
  "env \<Rightarrow> pathobj \<Rightarrow> string \<Rightarrow> globals \<Rightarrow> (pyerr + string) \<times> globals" where
  "export_object e obj gcode g =
     (if inactive obj then (Inr gcode, g)
      else
        case (if OUTPUT_COMMENTS g
              then add_numbered (''[Operation: '' @ Label obj @ '' ('' @ UNIT_SPEED_FORMAT g @ '')]'' @ NL)
                     gcode g
              else (gcode, g)) of
          (gcode, g) \<Rightarrow>
        case gcode_lines (splitlines PRE_OPERATION True) NL gcode g of
          (gcode, g) \<Rightarrow>
        case (if OUTPUT_COMMENTS g \<and> coolantMode obj \<noteq> ''None''
              then add_numbered (''[Coolant On:'' @ coolantMode obj @ '']'' @ NL) gcode g
              else (gcode, g)) of
          (gcode, g) \<Rightarrow>
        case (if coolantMode obj = ''Flood'' then add_numbered (''M8'' @ NL) gcode g
              else (gcode, g)) of
          (gcode, g) \<Rightarrow>
        case (if coolantMode obj = ''Mist'' then add_numbered (''M7'' @ NL) gcode g
              else (gcode, g)) of
          (gcode, g) \<Rightarrow>
        case parse e obj g of
          (Inl err, g) \<Rightarrow> (Inl err, g)
        | (Inr (Lst l), g) \<Rightarrow> (Inl TypeError, g)
        | (Inr (Str s), g) \<Rightarrow>
        case gcode_lines (splitlines POST_OPERATION True) '''' (gcode @ s) g of
          (gcode, g) \<Rightarrow>
        case (gcode @ NL, g) of
          (gcode, g) \<Rightarrow>
        if coolantMode obj \<noteq> ''None'' then
          (case (if OUTPUT_COMMENTS g
                 then add_numbered (''[Coolant Off:'' @ coolantMode obj @ '']'' @ NL) gcode g
                 else (gcode, g)) of
             (gcode, g) \<Rightarrow>
           case add_numbered (''M9'' @ NL) gcode g of
             (gcode, g) \<Rightarrow> (Inr gcode, g))
        else (Inr gcode, g))"

fun export_objects ::
  "env \<Rightarrow> pathobj list \<Rightarrow> string \<Rightarrow> globals \<Rightarrow> (pyerr + string) \<times> globals" where
  "export_objects e [] gcode g = (Inr gcode, g)"
| "export_objects e (obj # objs) gcode g =
     (case export_object e obj gcode g of
        (Inl err, g') \<Rightarrow> (Inl err, g')
      | (Inr gcode', g') \<Rightarrow> export_objects e objs gcode' g')"

text \<open>The header (lines 230 to 233), started on an empty text.\<close>

definition write_header :: "env \<Rightarrow> globals \<Rightarrow> string \<times> globals" where
  "write_header e g =
     (if OUTPUT_HEADER g then
        (case add_numbered (''[Exported by FreeCAD]'' @ NL) '''' g of
           (gcode, g) \<Rightarrow>
         case add_numbered (''[Post Processor: '' @ module__name e @ '']'' @ NL) gcode g of
           (gcode, g) \<Rightarrow>
         add_numbered (''[Output Time:'' @ now e @ '']'' @ NL @ NL) gcode g)
      else ('''', g))"

text \<open>The preamble and the line of the units (lines 236 to 240).\<close>

definition write_preamble :: "string \<Rightarrow> globals \<Rightarrow> string \<times> globals" where
  "write_preamble gcode g =
     (case (if OUTPUT_COMMENTS g then add_numbered (''[Begin Preamble]'' @ NL) gcode g
            else (gcode, g)) of
        (gcode, g) \<Rightarrow>
      case gcode_lines (splitlines (PREAMBLE g) False) NL gcode g of
        (gcode, g) \<Rightarrow>
      add_numbered (UNITS g @ TAB @ TAB @ ''[Units: '' @ UNIT_FORMAT g @ '']'' @ NL @ NL) gcode g)"

text \<open>The postamble (lines 312 to 315); its heading gets no line number.\<close>

definition write_postamble :: "string \<Rightarrow> globals \<Rightarrow> string \<times> globals" where
  "write_postamble gcode g =
     (case (if OUTPUT_COMMENTS g then (gcode @ ''[Postamble]'' @ NL, g) else (gcode, g)) of
        (gcode, g) \<Rightarrow>
      gcode_lines (splitlines (POSTAMBLE g) True) '''' gcode g)"

text \<open>The text \<^verbatim>\<open>export\<close> builds (lines 227 to 315).\<close>

definition export_gcode :: "env \<Rightarrow> pathobj list \<Rightarrow> globals \<Rightarrow> (pyerr + string) \<times> globals" where
  "export_gcode e objectslist g =
     (case write_header e g of
        (gcode, g) \<Rightarrow>
      case write_preamble gcode g of
        (gcode, g) \<Rightarrow>
      case export_objects e objectslist gcode g of
        (Inl err, g) \<Rightarrow> (Inl err, g)
      | (Inr gcode, g) \<Rightarrow>
      case write_postamble gcode g of
        (gcode, g) \<Rightarrow> (Inr gcode, g))"

text \<open>The editor (lines 317 to 328): the text that is written and returned.\<close>

definition show_editor :: "env \<Rightarrow> string \<Rightarrow> globals \<Rightarrow> io \<Rightarrow> string \<times> io" where
  "show_editor e gcode g w =
     (if GuiUp e \<and> SHOW_EDITOR g then
        (if length gcode > 100000
         then (gcode, print ''Skipping editor since output is greater than 100kb'' w)
         else (case GCodeEditorDialog e gcode of None \<Rightarrow> (gcode, w) | Some edited \<Rightarrow> (edited, w)))
      else (gcode, w))"

text \<open>
  \<^verbatim>\<open>export\<close>: \<open>Inr None\<close> is \<^verbatim>\<open>return None\<close>, \<open>Inr (Some final)\<close> is
  \<^verbatim>\<open>return final\<close>, \<open>Inl\<close> an exception that leaves the function.
\<close>

definition export ::
  "env \<Rightarrow> pathobj list \<Rightarrow> string \<Rightarrow> string \<Rightarrow> globals \<Rightarrow> io
    \<Rightarrow> (pyerr + string option) \<times> globals \<times> io" where
  "export e objectslist filename argstring g w =
     (case processArguments e argstring g w of
        (Inl err, g, w) \<Rightarrow> (Inl err, g, w)
      | (Inr False, g, w) \<Rightarrow> (Inr None, g, w)
      | (Inr True, g, w) \<Rightarrow>
          (case find (\<lambda>obj. Path obj = None) objectslist of
             Some obj \<Rightarrow>
               (Inr None, g,
                print (''the object '' @ ObjName obj @
                       '' is not a path. Please select only path and Compounds.'') w)
           | None \<Rightarrow>
               (case export_gcode e objectslist g of
                  (Inl err, g') \<Rightarrow> (Inl err, g', print ''postprocessing...'' w)
                | (Inr gcode, g') \<Rightarrow>
                    (case show_editor e gcode g' (print ''postprocessing...'' w) of
                       (final, w) \<Rightarrow>
                         (Inr (Some final), g',
                          (let w = print ''done postprocessing.'' w
                           in if filename \<noteq> ''-''
                              then w\<lparr>files := (files w)(filename \<mapsto> final)\<rparr>
                              else w))))))"

subsection \<open>A test bench\<close>

text \<open>
  Concrete collaborators for running the model on examples. The argument parser knows the flag
  combinations the examples use; the unit conversion is the one of millimetres (per second) to
  inches (per minute); \<open>format_float\<close> is a stand-in that prints the integer part only.
\<close>

definition default_args :: args where
  "default_args =
     \<lparr> no_header = False, no_comments = False, line_numbers = False, no_show_editor = False,
       precision = ''3'', preamble = None, postamble = None, inches = False, modal = False,
       axis_modal = False, no_tlo = False \<rparr>"

definition test_parse_args :: "string \<Rightarrow> parse_result" where
  "test_parse_args s =
     (if s = '''' then Parsed default_args
      else if s = ''--no-header'' then Parsed (default_args\<lparr>no_header := True\<rparr>)
      else if s = ''--no-comments'' then Parsed (default_args\<lparr>no_comments := True\<rparr>)
      else if s = ''--line-numbers'' then Parsed (default_args\<lparr>line_numbers := True\<rparr>)
      else if s = ''--modal'' then Parsed (default_args\<lparr>modal := True\<rparr>)
      else if s = ''--axis-modal'' then Parsed (default_args\<lparr>axis_modal := True\<rparr>)
      else if s = ''--no-header --no-comments''
      then Parsed (default_args\<lparr>no_header := True, no_comments := True\<rparr>)
      else if s = ''--no-header --no-comments --line-numbers''
      then Parsed (default_args\<lparr>no_header := True, no_comments := True, line_numbers := True\<rparr>)
      else if s = ''--no-header --no-comments --modal''
      then Parsed (default_args\<lparr>no_header := True, no_comments := True, modal := True\<rparr>)
      else if s = ''--no-header --no-comments --axis-modal''
      then Parsed (default_args\<lparr>no_header := True, no_comments := True, axis_modal := True\<rparr>)
      else if s = ''--precision='' then Raised
      else Exited)"

definition test_env :: env where
  "test_env =
     \<lparr> parse_args = test_parse_args,
       module__name = ''wincnc_post'',
       now = ''2022-01-01 12:00:00.000000'',
       GuiUp = False,
       GCodeEditorDialog = (\<lambda>gcode. None),
       Length_getValueAs = (\<lambda>v u. if u = ''in'' then v / 25.4 else v),
       Velocity_getValueAs = (\<lambda>v u. if u = ''in/min'' then v * 60 / 25.4 else v * 60),
       format_float = (\<lambda>x spec. str_int (py_int x)) \<rparr>"

definition test_io :: io where
  "test_io = \<lparr> stdout = [], files = Map.empty \<rparr>"

text \<open>A leaf operation with the given commands and tool label, and a group of objects.\<close>

definition test_leaf :: "string \<Rightarrow> command list \<Rightarrow> string option \<Rightarrow> pathobj" where
  "test_leaf nm cs tool = PathObj nm nm None (Some cs) None None None tool"

definition test_group :: "string \<Rightarrow> pathobj list \<Rightarrow> pathobj" where
  "test_group nm ps = PathObj nm nm (Some ps) (Some []) None None None None"

definition cmd :: "string \<Rightarrow> (string \<rightharpoonup> real) \<Rightarrow> command" where
  "cmd nm ps = \<lparr> Name = nm, Parameters = ps \<rparr>"

subsection \<open>Auxiliary notions for the proofs\<close>

text \<open>
  \<open>advances g g'\<close>: \<open>g'\<close> differs from \<open>g\<close> at most in the line counter and in the tool-change
  flag; the counter has not gone down, and stands still when lines are not numbered; the flag has
  not been cleared, and stands still once it is set or when the first tool change is not skipped.
\<close>

definition advances :: "globals \<Rightarrow> globals \<Rightarrow> bool" where
  "advances g g' \<longleftrightarrow>
     g' = g\<lparr>LINENR := LINENR g', first_tool_change_skipped := first_tool_change_skipped g'\<rparr> \<and>
     LINENR g \<le> LINENR g' \<and>
     (first_tool_change_skipped g \<longrightarrow> first_tool_change_skipped g') \<and>
     (\<not> OUTPUT_LINE_NUMBERS g \<longrightarrow> LINENR g' = LINENR g) \<and>
     (first_tool_change_skipped g \<or> \<not> SKIP_FIRST_TOOLCHANGE g
        \<longrightarrow> first_tool_change_skipped g' = first_tool_change_skipped g)"

text \<open>The text \<open>pat\<close> occurs somewhere in \<open>s\<close>.\<close>

fun occurs_in :: "string \<Rightarrow> string \<Rightarrow> bool" where
  "occurs_in pat [] = (pat = [])"
| "occurs_in pat (c # cs) = (prefix pat (c # cs) \<or> occurs_in pat cs)"


text \<open>
  The lines \<open>ls\<close>, each behind the line number that follows the counter value \<open>L\<close>:
  \<open>L + 10\<close> for the first, \<open>L + 20\<close> for the second, and so on.
\<close>

fun numbered_text :: "int \<Rightarrow> string list \<Rightarrow> string" where
  "numbered_text L [] = ''''"
| "numbered_text L (l # ls) = ''N'' @ str_int (L + 10) @ '' '' @ l @ numbered_text (L + 10) ls"

text \<open>The tokens of a line as \<^verbatim>\<open>parse\<close> writes them: each followed by a space.\<close>

definition spaced :: "string list \<Rightarrow> string" where
  "spaced ts = concat (map (\<lambda>w. w @ COMMAND_SPACE) ts)"

section \<open>What a run changes in the module-level variables\<close>

lemma advances_refl: "advances g g"
  by (simp add: advances_def)

lemma advances_trans: "advances g g' \<Longrightarrow> advances g' g'' \<Longrightarrow> advances g g''"
  unfolding advances_def
  by (cases g; cases g'; cases g'') auto

lemma advances_linenumber: "advances g (snd (linenumber g))"
  by (simp add: linenumber_def advances_def)

lemma advances_numbered_lines: "advances g (snd (numbered_lines ls ou g))"
proof (induction ls arbitrary: ou g)
  case Nil
  show ?case by (simp add: advances_refl)
next
  case (Cons l ls)
  obtain n g' where ln: "linenumber g = (n, g')" by (cases "linenumber g")
  have "advances g g'" using advances_linenumber [of g] ln by simp
  moreover have "advances g' (snd (numbered_lines ls (iadd ou (n @ l)) g'))" by (rule Cons.IH)
  ultimately show ?case using ln by (simp add: advances_trans)
qed

lemma advances_skip:
  "SKIP_FIRST_TOOLCHANGE g \<Longrightarrow> \<not> first_tool_change_skipped g
    \<Longrightarrow> advances g (g\<lparr>first_tool_change_skipped := True\<rparr>)"
  by (simp add: advances_def)

lemma advances_tool_change: "tool_change tool ou g = (r, g') \<Longrightarrow> advances g g'"
proof -
  assume tc: "tool_change tool ou g = (r, g')"
  show ?thesis
  proof (cases "SKIP_FIRST_TOOLCHANGE g \<and> \<not> first_tool_change_skipped g")
    case True
    then have "g' = g\<lparr>first_tool_change_skipped := True\<rparr>"
      using tc by (simp add: tool_change_def)
    then show ?thesis using True advances_skip by simp
  next
    case False
    obtain ou1 g1 where n1: "numbered_lines (splitlines PRE_TOOL_CHANGE True) ou g = (ou1, g1)"
      by (cases "numbered_lines (splitlines PRE_TOOL_CHANGE True) ou g")
    have a1: "advances g g1"
      using advances_numbered_lines [of g "splitlines PRE_TOOL_CHANGE True" ou] n1 by simp
    show ?thesis
    proof (cases tool)
      case None
      then have "g' = g1" using tc False n1 by (simp add: tool_change_def if_not_P)
      then show ?thesis using a1 by simp
    next
      case (Some label)
      obtain ou2 g2 where n2:
        "numbered_lines (splitlines TOOL_CHANGE True)
           (iadd ou1 (TOOL_CHANGE_NOTIFICATION_format label)) g1 = (ou2, g2)"
        by (cases "numbered_lines (splitlines TOOL_CHANGE True)
                     (iadd ou1 (TOOL_CHANGE_NOTIFICATION_format label)) g1")
      have "advances g1 g2"
        using advances_numbered_lines [of g1 "splitlines TOOL_CHANGE True"
                "iadd ou1 (TOOL_CHANGE_NOTIFICATION_format label)"] n2 by simp
      then have "advances g g2" using a1 advances_trans by blast
      moreover have "g' = g2" using tc False n1 n2 Some by (simp add: tool_change_def if_not_P)
      ultimately show ?thesis by simp
    qed
  qed
qed

lemma advances_emit_line: "emit_line outstring ou g = (ou', g') \<Longrightarrow> advances g g'"
  using advances_linenumber [of g]
  by (auto simp: emit_line_def advances_refl split: prod.splits if_splits)

lemma advances_parse_command: "parse_command e tool c st g = (r, g') \<Longrightarrow> advances g g'"
  unfolding parse_command_def Let_def
  by (auto simp: advances_refl split: list.splits sum.splits prod.splits if_splits
           dest: advances_tool_change advances_emit_line)

lemma advances_parse_Commands:
  "parse_Commands e tool cs st g = (r, g') \<Longrightarrow> advances g g'"
proof (induction cs arbitrary: st g)
  case Nil
  then show ?case by (simp add: advances_refl)
next
  case (Cons c cs)
  obtain r1 g1 where pc: "parse_command e tool c st g = (r1, g1)"
    by (cases "parse_command e tool c st g")
  have a1: "advances g g1" using pc by (rule advances_parse_command)
  show ?case
  proof (cases r1)
    case (Inl err)
    then have "g' = g1" using Cons.prems pc by simp
    then show ?thesis using a1 by simp
  next
    case (Inr st')
    then have "parse_Commands e tool cs st' g1 = (r, g')" using Cons.prems pc by simp
    then have "advances g1 g'" by (rule Cons.IH)
    then show ?thesis using a1 advances_trans by blast
  qed
qed

lemma advances_parse:
  "parse e obj g = (r, g') \<Longrightarrow> advances g g'"
  "parse_Group e objs ou g = (r, g') \<Longrightarrow> advances g g'"
proof (induction e obj g and e objs ou g arbitrary: r g' and r g' rule: parse_parse_Group.induct)
  case (1 e nm lbl ps pth act bs cm tool g)
  then show ?case by simp
next
  case (2 e nm lbl act bs cm tool g)
  then show ?case by (simp add: advances_refl)
next
  case (3 e nm lbl cs act bs cm tool g)
  then show ?case by (simp add: advances_parse_Commands)
next
  case (4 e ou g)
  then show ?case by (simp add: advances_refl)
next
  case (5 e p ps ou g)
  obtain r1 g1 where p1: "parse e p g = (r1, g1)" by (cases "parse e p g")
  have a1: "advances g g1" using "5.IH"(1) p1 by simp
  show ?case
  proof (cases r1)
    case (Inl err)
    then have "g' = g1" using "5.prems" p1 by simp
    then show ?thesis using a1 by simp
  next
    case (Inr po)
    show ?thesis
    proof (cases po)
      case (Str s)
      then have "parse_Group e ps (ou @ s) g1 = (r, g')" using "5.prems" p1 Inr by simp
      then have "advances g1 g'" using "5.IH"(2) p1 Inr Str by simp
      then show ?thesis using a1 advances_trans by blast
    next
      case (Lst l)
      then have "g' = g1" using "5.prems" p1 Inr by simp
      then show ?thesis using a1 by simp
    qed
  qed
qed

lemma advances_add_numbered: "add_numbered text gcode g = (gcode', g') \<Longrightarrow> advances g g'"
  using advances_linenumber [of g] by (auto simp: add_numbered_def split: prod.splits)

lemma advances_gcode_lines: "gcode_lines ls ending gcode g = (gcode', g') \<Longrightarrow> advances g g'"
proof (induction ls arbitrary: gcode g)
  case Nil
  then show ?case by (simp add: advances_refl)
next
  case (Cons l ls)
  obtain gc1 g1 where an: "add_numbered (l @ ending) gcode g = (gc1, g1)"
    by (cases "add_numbered (l @ ending) gcode g")
  have "advances g g1" using an by (rule advances_add_numbered)
  moreover have "advances g1 g'" using Cons.prems an Cons.IH by simp
  ultimately show ?case using advances_trans by blast
qed

lemma advances_export_object: "export_object e obj gcode g = (r, g') \<Longrightarrow> advances g g'"
  unfolding export_object_def
  apply (auto simp: advances_refl PRE_OPERATION_def POST_OPERATION_def splitlines_def
           split: if_splits prod.splits sum.splits pyout.splits
           dest!: advances_add_numbered advances_parse(1)
           intro: advances_trans)
  by (meson advances_trans)+

lemma advances_export_objects: "export_objects e objs gcode g = (r, g') \<Longrightarrow> advances g g'"
proof (induction objs arbitrary: gcode g)
  case Nil
  then show ?case by (simp add: advances_refl)
next
  case (Cons obj objs)
  obtain r1 g1 where eo: "export_object e obj gcode g = (r1, g1)"
    by (cases "export_object e obj gcode g")
  have a1: "advances g g1" using eo by (rule advances_export_object)
  show ?case
  proof (cases r1)
    case (Inl err)
    then have "g' = g1" using Cons.prems eo by simp
    then show ?thesis using a1 by simp
  next
    case (Inr gcode1)
    then have "export_objects e objs gcode1 g1 = (r, g')" using Cons.prems eo by simp
    then have "advances g1 g'" by (rule Cons.IH)
    then show ?thesis using a1 advances_trans by blast
  qed
qed

lemma advances_write_header: "write_header e g = (gcode, g') \<Longrightarrow> advances g g'"
  unfolding write_header_def
  apply (auto simp: advances_refl split: if_splits prod.splits dest!: advances_add_numbered)
  by (meson advances_trans)+

lemma advances_write_preamble: "write_preamble gcode g = (gcode', g') \<Longrightarrow> advances g g'"
  unfolding write_preamble_def
  apply (auto simp: advances_refl split: if_splits prod.splits
           dest!: advances_add_numbered advances_gcode_lines)
  by (meson advances_trans)+

lemma advances_write_postamble: "write_postamble gcode g = (gcode', g') \<Longrightarrow> advances g g'"
  unfolding write_postamble_def
  by (auto simp: advances_refl split: if_splits prod.splits dest!: advances_gcode_lines)

lemma advances_export_gcode: "export_gcode e objs g = (r, g') \<Longrightarrow> advances g g'"
  unfolding export_gcode_def
  apply (auto simp: advances_refl
           split: prod.splits sum.splits
           dest!: advances_write_header advances_write_preamble advances_write_postamble
                  advances_export_objects)
  by (meson advances_trans)+

section \<open>The feed parameter\<close>


lemma parse_command_currLocation:
  "parse_command e tool c st g = (Inr st', g')
    \<Longrightarrow> currLocation st' = currLocation st \<or> currLocation st' = currLocation st ++ Parameters c"
  unfolding parse_command_def Let_def
  by (auto split: list.splits sum.splits prod.splits if_splits)

lemma feed_stays_tracked:
  assumes "parse_command e tool c st g = (Inr st', g')" and "''F'' \<in> dom (currLocation st)"
  shows "''F'' \<in> dom (currLocation st')"
  using parse_command_currLocation [OF assms(1)] assms(2)
  by (auto simp: map_add_def split: option.splits)



section \<open>Objects that are not paths\<close>

lemma processArguments_files:
  "processArguments e argstring g w = (r, g', w') \<Longrightarrow> files w' = files w"
  by (cases "parse_args e argstring")
     (auto simp: processArguments_def print_def Let_def)

lemma show_editor_files: "show_editor e gcode g w = (final, w') \<Longrightarrow> files w' = files w"
  by (auto simp: show_editor_def print_def split: if_splits option.splits)

text \<open>
  C10. If some object of the list handed to \<^verbatim>\<open>export\<close> has no \<^verbatim>\<open>Path\<close> attribute,
  the call returns no text and writes no file; once the argument string has been accepted, it
  returns \<^verbatim>\<open>None\<close> and the last thing printed names the first such object. An object
  without \<^verbatim>\<open>Path\<close> (and without \<^verbatim>\<open>Group\<close>) that \<^verbatim>\<open>parse\<close> meets, as the
  member of a group, yields the empty string, changes no variable, and is no error: the group
  goes on with its other members.
\<close>

theorem not_a_path:
  assumes "ob \<in> set objectslist" and "Path ob = None"
  shows "(\<exists>obj. find (\<lambda>obj. Path obj = None) objectslist = Some obj \<and>
            (\<forall>text. fst (export e objectslist filename argstring g w) \<noteq> Inr (Some text)) \<and>
            files (snd (snd (export e objectslist filename argstring g w))) = files w \<and>
            (\<forall>a. parse_args e argstring = Parsed a \<longrightarrow>
               fst (export e objectslist filename argstring g w) = Inr None \<and>
               stdout (snd (snd (export e objectslist filename argstring g w))) =
                 stdout (snd (snd (processArguments e argstring g w))) @
                 [''the object '' @ ObjName obj @
                  '' is not a path. Please select only path and Compounds.''])) \<and>
         parse e (PathObj nm lbl None None act bs cm tool) g' = (Inr (Str ''''), g') \<and>
         parse_Group e (PathObj nm lbl None None act bs cm tool # ps) ou g' = parse_Group e ps ou g'"
proof -
  obtain obj where f: "find (\<lambda>obj. Path obj = None) objectslist = Some obj"
    using assms by (cases "find (\<lambda>obj. Path obj = None) objectslist") (auto simp: find_None_iff)
  obtain r g1 w1 where pa: "processArguments e argstring g w = (r, g1, w1)"
    by (cases "processArguments e argstring g w") auto
  have fw: "files w1 = files w" using pa by (rule processArguments_files)
  have 1: "\<forall>text. fst (export e objectslist filename argstring g w) \<noteq> Inr (Some text)"
    using f pa by (auto simp: export_def split: sum.splits bool.splits)
  have 2: "files (snd (snd (export e objectslist filename argstring g w))) = files w"
    using f pa fw by (auto simp: export_def print_def split: sum.splits bool.splits)
  have 3: "\<forall>a. parse_args e argstring = Parsed a \<longrightarrow>
               fst (export e objectslist filename argstring g w) = Inr None \<and>
               stdout (snd (snd (export e objectslist filename argstring g w))) =
                 stdout (snd (snd (processArguments e argstring g w))) @
                 [''the object '' @ ObjName obj @
                  '' is not a path. Please select only path and Compounds.'']"
  proof (intro allI impI)
    fix a assume "parse_args e argstring = Parsed a"
    then have "r = Inr True" using pa by (auto simp: processArguments_def Let_def)
    then show "fst (export e objectslist filename argstring g w) = Inr None \<and>
               stdout (snd (snd (export e objectslist filename argstring g w))) =
                 stdout (snd (snd (processArguments e argstring g w))) @
                 [''the object '' @ ObjName obj @
                  '' is not a path. Please select only path and Compounds.'']"
      using f pa by (simp add: export_def print_def)
  qed
  show ?thesis using f 1 2 3 by simp
qed

theorem not_a_path_witness:
  "PathObj ''stock'' ''Stock'' None None None None None None
     \<in> set [test_leaf ''op1'' [cmd ''G1'' [''X'' \<mapsto> 1]] None,
            PathObj ''stock'' ''Stock'' None None None None None None] \<and>
   Path (PathObj ''stock'' ''Stock'' None None None None None None) = None \<and>
   fst (export test_env
          [test_leaf ''op1'' [cmd ''G1'' [''X'' \<mapsto> 1]] None,
           PathObj ''stock'' ''Stock'' None None None None None None]
          ''out.nc'' '''' initial_globals test_io) = Inr None \<and>
   snd (snd (export test_env
          [test_leaf ''op1'' [cmd ''G1'' [''X'' \<mapsto> 1]] None,
           PathObj ''stock'' ''Stock'' None None None None None None]
          ''out.nc'' '''' initial_globals test_io)) =
     \<lparr>stdout = [''Show editor = 1'',
                ''the object stock is not a path. Please select only path and Compounds.''],
      files = Map.empty\<rparr> \<and>
   parse test_env (PathObj ''stock'' ''Stock'' None None None None None None) initial_globals
     = (Inr (Str ''''), initial_globals)"
proof -
  have m: "PathObj ''stock'' ''Stock'' None None None None None None
     \<in> set [test_leaf ''op1'' [cmd ''G1'' [''X'' \<mapsto> 1]] None,
            PathObj ''stock'' ''Stock'' None None None None None None]" by simp
  have p: "Path (PathObj ''stock'' ''Stock'' None None None None None None) = None" by simp
  have f: "find (\<lambda>obj. Path obj = None)
             [test_leaf ''op1'' [cmd ''G1'' [''X'' \<mapsto> 1]] None,
              PathObj ''stock'' ''Stock'' None None None None None None]
           = Some (PathObj ''stock'' ''Stock'' None None None None None None)"
    by (simp add: test_leaf_def)
  have a: "parse_args test_env '''' = Parsed default_args"
    by (simp add: test_env_def test_parse_args_def)
  have pa: "snd (snd (processArguments test_env '''' initial_globals test_io))
              = \<lparr>stdout = [''Show editor = 1''], files = Map.empty\<rparr>"
    using a by (simp add: processArguments_def Let_def default_args_def print_def test_io_def
                  initial_globals_def)
  show ?thesis
    using not_a_path [OF m p, where e = test_env and filename = "''out.nc''"
                      and argstring = "''''" and g = initial_globals and w = test_io
                      and nm = "''stock''" and lbl = "''Stock''" and act = None and bs = None
                      and cm = None and tool = None and g' = initial_globals] f a pa m p
    by (auto simp: test_io_def intro!: io.equality)
qed

section \<open>Lines, line numbers and parameter tokens\<close>

lemma iadd_iadd: "iadd (iadd ou a) b = iadd ou (a @ b)"
  by (cases ou) simp_all

lemma iadd_Nil: "iadd ou [] = ou"
  by (cases ou) simp_all

lemma foldl_iadd: "foldl (\<lambda>o' w. iadd o' (w @ COMMAND_SPACE)) ou ws = iadd ou (spaced ws)"
  by (induction ws arbitrary: ou) (simp_all add: spaced_def iadd_Nil iadd_iadd)

lemma emit_line_Nil: "emit_line [] ou g = (ou, g)"
  by (simp add: emit_line_def)

lemma emit_line_plain:
  "\<not> OUTPUT_LINE_NUMBERS g \<Longrightarrow> ts \<noteq> []
    \<Longrightarrow> emit_line ts ou g = (iadd ou (spaced ts @ NL), g)"
  by (cases ts) (simp_all add: emit_line_def foldl_iadd iadd_iadd)

lemma emit_line_numbered:
  assumes "OUTPUT_LINE_NUMBERS g" and "ts \<noteq> []"
  shows "emit_line ts ou g =
          (iadd ou (numbered_text (LINENR g) ['' '' @ spaced ts @ NL]),
           g\<lparr>LINENR := LINENR g + 10\<rparr>)"
proof -
  have "length ts \<ge> 1" using assms(2) by (cases ts) simp_all
  then have "emit_line ts ou g =
          (iadd (iadd ou (spaced ((''N'' @ str_int (LINENR g + 10) @ '' '') # ts))) NL,
           g\<lparr>LINENR := LINENR g + 10\<rparr>)"
    using assms(1) by (simp add: emit_line_def linenumber_def foldl_iadd)
  then show ?thesis by (simp add: iadd_iadd spaced_def COMMAND_SPACE_def)
qed


lemma numbered_lines_numbered:
  "OUTPUT_LINE_NUMBERS g
    \<Longrightarrow> numbered_lines ls ou g =
          (iadd ou (numbered_text (LINENR g) ls), g\<lparr>LINENR := LINENR g + 10 * int (length ls)\<rparr>)"
proof (induction ls arbitrary: ou g)
  case Nil
  then show ?case by (simp add: iadd_Nil)
next
  case (Cons l ls)
  have "OUTPUT_LINE_NUMBERS (g\<lparr>LINENR := LINENR g + 10\<rparr>)" using Cons.prems by simp
  from Cons.IH [OF this] show ?case
    using Cons.prems by (simp add: linenumber_def iadd_iadd algebra_simps)
qed

lemma gcode_lines_plain:
  "\<not> OUTPUT_LINE_NUMBERS g
    \<Longrightarrow> gcode_lines ls ending gcode g = (gcode @ concat (map (\<lambda>l. l @ ending) ls), g)"
  by (induction ls arbitrary: gcode) (simp_all add: add_numbered_def linenumber_def)

lemma gcode_lines_numbered:
  "OUTPUT_LINE_NUMBERS g
    \<Longrightarrow> gcode_lines ls ending gcode g =
          (gcode @ numbered_text (LINENR g) (map (\<lambda>l. l @ ending) ls),
           g\<lparr>LINENR := LINENR g + 10 * int (length ls)\<rparr>)"
proof (induction ls arbitrary: gcode g)
  case Nil
  then show ?case by simp
next
  case (Cons l ls)
  have "OUTPUT_LINE_NUMBERS (g\<lparr>LINENR := LINENR g + 10\<rparr>)" using Cons.prems by simp
  from Cons.IH [OF this] show ?case
    using Cons.prems by (simp add: add_numbered_def linenumber_def algebra_simps)
qed







section \<open>The code G99\<close>

lemma parse_command_G99: "Name c = ''G99'' \<Longrightarrow> parse_command e tool c st g = (Inr st, g)"
  by (simp add: parse_command_def Let_def)

text \<open>
  C9 (as the code has it). A command named \<^verbatim>\<open>G99\<close> contributes no token and no line and
  updates neither the tracked state nor a module-level variable: the loop of \<^verbatim>\<open>parse\<close>
  over a command list does exactly what it does on the list without its \<^verbatim>\<open>G99\<close> commands.
  The text \<^verbatim>\<open>G99\<close> can still reach the output through a comment (or a label, the preamble,
  the postamble), as the counterexample shows.
\<close>

theorem g99_dropped:
  "(Name c = ''G99'' \<longrightarrow> parse_command e tool c st g = (Inr st, g)) \<and>
   parse_Commands e tool cs st g =
     parse_Commands e tool (filter (\<lambda>c. Name c \<noteq> ''G99'') cs) st g"
proof
  show "Name c = ''G99'' \<longrightarrow> parse_command e tool c st g = (Inr st, g)"
    by (simp add: parse_command_G99)
  show "parse_Commands e tool cs st g =
          parse_Commands e tool (filter (\<lambda>c. Name c \<noteq> ''G99'') cs) st g"
  proof (induction cs arbitrary: st g)
    case Nil
    show ?case by simp
  next
    case (Cons c cs)
    show ?case
    proof (cases "Name c = ''G99''")
      case True
      then show ?thesis using Cons.IH by (simp add: parse_command_G99)
    next
      case False
      then show ?thesis using Cons.IH by (simp split: prod.splits sum.splits)
    qed
  qed
qed

theorem g99_dropped_witness:
  "Name (cmd ''G99'' [''X'' \<mapsto> 1]) = ''G99'' \<and>
   parse_command test_env None (cmd ''G99'' [''X'' \<mapsto> 1]) initial_locals initial_globals
     = (Inr initial_locals, initial_globals) \<and>
   parse_Commands test_env None [cmd ''G99'' [''X'' \<mapsto> 1], cmd ''G1'' [''X'' \<mapsto> 25.4]]
       initial_locals initial_globals
     = parse_Commands test_env None [cmd ''G1'' [''X'' \<mapsto> 25.4]] initial_locals initial_globals"
  using g99_dropped [where c = "cmd ''G99'' [''X'' \<mapsto> 1]" and e = test_env and tool = None
          and st = initial_locals and g = initial_globals
          and cs = "[cmd ''G99'' [''X'' \<mapsto> 1], cmd ''G1'' [''X'' \<mapsto> 25.4]]"]
  by (simp add: cmd_def)

theorem g99_in_comment_counterexample:
  "(case fst (export test_env [test_leaf ''op1'' [cmd ''(G99 is ignored)'' Map.empty] None]
               ''-'' '''' initial_globals test_io) of
      Inr (Some text) \<Rightarrow> occurs_in ''G99'' text
    | _ \<Rightarrow> False) \<and>
   fst (parse test_env (test_leaf ''op1'' [cmd ''(G99 is ignored)'' Map.empty] None) initial_globals)
     = Inr (Str (''[G99 is ignored] '' @ NL))"
  by code_simp

section \<open>Comment commands\<close>

lemma emit_line_eq:
  "ts \<noteq> [] \<Longrightarrow> emit_line ts ou g =
     (iadd ou (if OUTPUT_LINE_NUMBERS g
               then numbered_text (LINENR g) ['' '' @ spaced ts @ NL]
               else spaced ts @ NL),
      if OUTPUT_LINE_NUMBERS g then g\<lparr>LINENR := LINENR g + 10\<rparr> else g)"
  by (simp add: emit_line_plain emit_line_numbered)






section \<open>Tool changes\<close>










section \<open>Message commands\<close>

text \<open>
  With comments disabled, line 467 rebinds \<^verbatim>\<open>out\<close>, the text accumulated for the whole
  object, to an empty list. Whatever was written before is gone, the line of the message command
  itself is still appended (character by character, to the list), and the list stays a list to
  the end of the loop.
\<close>

lemma iadd_stays_list: "\<forall>s. ou \<noteq> Str s \<Longrightarrow> \<forall>s. iadd ou t \<noteq> Str s"
  by (cases ou) simp_all

lemma numbered_lines_stays_list:
  "\<forall>s. ou \<noteq> Str s \<Longrightarrow> \<forall>s. fst (numbered_lines ls ou g) \<noteq> Str s"
proof (induction ls arbitrary: ou g)
  case Nil
  then show ?case by simp
next
  case (Cons l ls)
  obtain n g' where ln: "linenumber g = (n, g')" by (cases "linenumber g")
  have "\<forall>s. iadd ou (n @ l) \<noteq> Str s" using Cons.prems by (rule iadd_stays_list)
  then have "\<forall>s. fst (numbered_lines ls (iadd ou (n @ l)) g') \<noteq> Str s" by (rule Cons.IH)
  then show ?case using ln by simp
qed

lemma tool_change_stays_list:
  assumes "\<forall>s. ou \<noteq> Str s" and "tool_change tool ou g = (Inr ou', g')"
  shows "\<forall>s. ou' \<noteq> Str s"
proof (cases "SKIP_FIRST_TOOLCHANGE g \<and> \<not> first_tool_change_skipped g")
  case True
  then have "ou' = ou" using assms(2) by (simp add: tool_change_def)
  then show ?thesis using assms(1) by simp
next
  case False
  obtain ou1 g1 where n1: "numbered_lines (splitlines PRE_TOOL_CHANGE True) ou g = (ou1, g1)"
    by (cases "numbered_lines (splitlines PRE_TOOL_CHANGE True) ou g")
  have l1: "\<forall>s. ou1 \<noteq> Str s"
    using numbered_lines_stays_list [OF assms(1), of "splitlines PRE_TOOL_CHANGE True" g] n1
    by simp
  show ?thesis
  proof (cases tool)
    case None
    then show ?thesis using assms(2) False n1 by (simp add: tool_change_def if_not_P)
  next
    case (Some label)
    have "\<forall>s. iadd ou1 (TOOL_CHANGE_NOTIFICATION_format label) \<noteq> Str s"
      using l1 by (rule iadd_stays_list)
    then have "\<forall>s. fst (numbered_lines (splitlines TOOL_CHANGE True)
                 (iadd ou1 (TOOL_CHANGE_NOTIFICATION_format label)) g1) \<noteq> Str s"
      by (rule numbered_lines_stays_list)
    then show ?thesis
      using assms(2) False n1 Some
      by (auto simp: tool_change_def if_not_P split: prod.splits)
  qed
qed

lemma emit_line_stays_list:
  assumes "emit_line ts ou g = (ou', g')" and "\<forall>s. ou \<noteq> Str s"
  shows "\<forall>s. ou' \<noteq> Str s"
proof (cases "ts = []")
  case True
  then show ?thesis using assms by (simp add: emit_line_Nil)
next
  case False
  then show ?thesis
    using iadd_stays_list [OF assms(2)] assms(1) by (auto simp: emit_line_eq)
qed

lemma parse_command_out:
  assumes "parse_command e tool c st g = (Inr st', g')"
  shows "(st' = st \<and> g' = g \<and> Name c \<noteq> ''message'') \<or>
         (Name c = ''M6'' \<and> tool_change tool (out st) g = (Inr (out st'), g')) \<or>
         (\<exists>ts. emit_line ts (if Name c = ''message'' \<and> \<not> OUTPUT_COMMENTS g
                              then Lst [] else out st) g = (out st', g'))"
  using assms unfolding parse_command_def Let_def
  by (auto split: list.splits sum.splits prod.splits if_splits)

lemma parse_command_stays_list:
  assumes "parse_command e tool c st g = (Inr st', g')"
    and "(\<forall>s. out st \<noteq> Str s) \<or> (Name c = ''message'' \<and> \<not> OUTPUT_COMMENTS g)"
  shows "\<forall>s. out st' \<noteq> Str s"
  using parse_command_out [OF assms(1)] assms(2)
  by (auto dest: tool_change_stays_list [rotated] emit_line_stays_list split: if_splits)

lemma parse_Commands_stays_list:
  "\<forall>s. out st \<noteq> Str s \<Longrightarrow> \<forall>s. fst (parse_Commands e tool cs st g) \<noteq> Inr (Str s)"
proof (induction cs arbitrary: st g)
  case Nil
  then show ?case by simp
next
  case (Cons c cs)
  obtain r1 g1 where pc: "parse_command e tool c st g = (r1, g1)"
    by (cases "parse_command e tool c st g")
  show ?case
  proof (cases r1)
    case (Inl err)
    then show ?thesis using pc by simp
  next
    case (Inr st')
    then have "\<forall>s. out st' \<noteq> Str s"
      using parse_command_stays_list [of e tool c st g st' g1] pc Cons.prems by simp
    then show ?thesis using Cons.IH pc Inr by simp
  qed
qed

lemma parse_command_OUTPUT_COMMENTS:
  "parse_command e tool c st g = (r, g') \<Longrightarrow> OUTPUT_COMMENTS g' = OUTPUT_COMMENTS g"
  using advances_parse_command [of e tool c st g r g']
  by (cases g; cases g') (auto simp: advances_def)

lemma message_makes_out_a_list:
  assumes "c \<in> set cs" and "Name c = ''message''" and "\<not> OUTPUT_COMMENTS g"
  shows "\<forall>s. fst (parse_Commands e tool cs st g) \<noteq> Inr (Str s)"
  using assms
proof (induction cs arbitrary: st g)
  case Nil
  then show ?case by simp
next
  case (Cons c' cs)
  obtain r1 g1 where pc: "parse_command e tool c' st g = (r1, g1)"
    by (cases "parse_command e tool c' st g")
  have oc: "\<not> OUTPUT_COMMENTS g1"
    using parse_command_OUTPUT_COMMENTS [OF pc] Cons.prems(3) by simp
  show ?case
  proof (cases r1)
    case (Inl err)
    then show ?thesis using pc by simp
  next
    case (Inr st')
    show ?thesis
    proof (cases "c' = c")
      case True
      then have "\<forall>s. out st' \<noteq> Str s"
        using parse_command_stays_list [of e tool c st g st' g1] pc Inr Cons.prems(2,3) by simp
      then show ?thesis using parse_Commands_stays_list pc Inr by simp
    next
      case False
      then have "c \<in> set cs" using Cons.prems(1) by simp
      then show ?thesis using Cons.IH [OF _ Cons.prems(2) oc] pc Inr by simp
    qed
  qed
qed

text \<open>
  C1. The code at the failing input: an operation with a move and a message command, exported
  with \<^verbatim>\<open>--no-comments\<close>. \<^verbatim>\<open>parse\<close> returns a list that holds the message line and
  not the line of the move, and \<^verbatim>\<open>gcode += parse(obj)\<close> in \<^verbatim>\<open>export\<close> raises
  \<^verbatim>\<open>TypeError\<close>. With comments enabled the same commands give the line of the move and no
  line for the message, whose only token, the name, has been removed.
\<close>

theorem message_without_comments_raises:
  "fst (export test_env
          [test_leaf ''op1'' [cmd ''G1'' [''X'' \<mapsto> 25.4], cmd ''message'' Map.empty] None]
          ''-'' ''--no-comments'' initial_globals test_io) = Inl TypeError \<and>
   fst (parse test_env
          (test_leaf ''op1'' [cmd ''G1'' [''X'' \<mapsto> 25.4], cmd ''message'' Map.empty] None)
          (initial_globals\<lparr>OUTPUT_COMMENTS := False\<rparr>)) = Inr (Lst (''message '' @ NL)) \<and>
   fst (parse test_env
          (test_leaf ''op1'' [cmd ''G1'' [''X'' \<mapsto> 25.4], cmd ''message'' Map.empty] None)
          initial_globals) = Inr (Str (''G1 X1 '' @ NL))"
  by code_simp

section \<open>Duplicate axis values\<close>

text \<open>
  A command that reaches line 434 (any command but \<^verbatim>\<open>G99\<close> and a comment while comments are
  disabled) becomes the last command, and its parameters are merged into the tracked location;
  the settings are the same before and after a command.
\<close>

lemma advances_settings:
  assumes "advances g g'"
  shows "OUTPUT_COMMENTS g' = OUTPUT_COMMENTS g" "OUTPUT_HEADER g' = OUTPUT_HEADER g"
    "OUTPUT_LINE_NUMBERS g' = OUTPUT_LINE_NUMBERS g" "SHOW_EDITOR g' = SHOW_EDITOR g"
    "MODAL g' = MODAL g" "USE_TLO g' = USE_TLO g" "OUTPUT_DOUBLES g' = OUTPUT_DOUBLES g"
    "SKIP_FIRST_TOOLCHANGE g' = SKIP_FIRST_TOOLCHANGE g" "UNITS g' = UNITS g"
    "UNIT_SPEED_FORMAT g' = UNIT_SPEED_FORMAT g" "UNIT_FORMAT g' = UNIT_FORMAT g"
    "PRECISION g' = PRECISION g" "PREAMBLE g' = PREAMBLE g" "POSTAMBLE g' = POSTAMBLE g"
  using assms by (cases g; cases g'; simp add: advances_def)+

lemma parse_command_tracks:
  assumes "parse_command e tool c st g = (Inr st', g')"
    and "Name c \<noteq> ''G99''" and "OUTPUT_COMMENTS g \<or> hd (Name c) \<noteq> CHR ''(''"
  shows "currLocation st' = currLocation st ++ Parameters c \<and> lastcommand st' = Some (Name c)"
proof (cases "Name c")
  case Nil
  then show ?thesis using assms(1) by (simp add: parse_command_def Let_def)
next
  case (Cons ch r)
  have nc: "\<not> (ch = CHR ''('' \<and> \<not> OUTPUT_COMMENTS g)" using assms(3) Cons by auto
  show ?thesis
    using assms(1,2) Cons nc
    unfolding parse_command_def Let_def
    by (auto split: sum.splits prod.splits if_splits)
qed






section \<open>Line numbers\<close>

text \<open>
  C6 (as the code has it). With line numbering enabled, \<^verbatim>\<open>linenumber\<close> adds 10 to the
  counter and writes the new value, so the number written is always the counter plus 10 and the
  counter then holds the number written: the loops that number the lines of a block give the
  \<open>k\<close>-th line the number \<open>LINENR + 10 * k\<close>, and the command loop advances the counter by 10
  for a command that has a token left and not at all for one that has none. The first number
  written is therefore the counter at the start plus 10 (110 when the counter holds its initial
  100), not the counter's starting value.
\<close>

theorem line_numbers:
  assumes "OUTPUT_LINE_NUMBERS g"
  shows "linenumber g = (''N'' @ str_int (LINENR g + 10) @ '' '', g\<lparr>LINENR := LINENR g + 10\<rparr>) \<and>
         numbered_lines ls ou g =
           (iadd ou (numbered_text (LINENR g) ls),
            g\<lparr>LINENR := LINENR g + 10 * int (length ls)\<rparr>) \<and>
         gcode_lines ls ending gcode g =
           (gcode @ numbered_text (LINENR g) (map (\<lambda>l. l @ ending) ls),
            g\<lparr>LINENR := LINENR g + 10 * int (length ls)\<rparr>) \<and>
         emit_line [] ou g = (ou, g) \<and>
         emit_line (t # ts) ou g =
           (iadd ou (numbered_text (LINENR g) ['' '' @ spaced (t # ts) @ NL]),
            g\<lparr>LINENR := LINENR g + 10\<rparr>)"
  using assms
  by (simp add: linenumber_def numbered_lines_numbered gcode_lines_numbered emit_line_Nil
        emit_line_numbered)

theorem line_numbers_witness:
  "OUTPUT_LINE_NUMBERS (initial_globals\<lparr>OUTPUT_LINE_NUMBERS := True\<rparr>) \<and>
   linenumber (initial_globals\<lparr>OUTPUT_LINE_NUMBERS := True\<rparr>)
     = (''N110 '', initial_globals\<lparr>OUTPUT_LINE_NUMBERS := True, LINENR := 110\<rparr>) \<and>
   numbered_lines [''G0'' @ NL, ''G53 X0 Y0'' @ NL] (Str '''')
       (initial_globals\<lparr>OUTPUT_LINE_NUMBERS := True\<rparr>)
     = (Str (''N110 G0'' @ NL @ ''N120 G53 X0 Y0'' @ NL),
        initial_globals\<lparr>OUTPUT_LINE_NUMBERS := True, LINENR := 120\<rparr>) \<and>
   emit_line [] (Str '''') (initial_globals\<lparr>OUTPUT_LINE_NUMBERS := True\<rparr>)
     = (Str '''', initial_globals\<lparr>OUTPUT_LINE_NUMBERS := True\<rparr>) \<and>
   emit_line [''G1'', ''X1''] (Str '''') (initial_globals\<lparr>OUTPUT_LINE_NUMBERS := True\<rparr>)
     = (Str (''N110  G1 X1 '' @ NL),
        initial_globals\<lparr>OUTPUT_LINE_NUMBERS := True, LINENR := 110\<rparr>)"
proof -
  have o: "OUTPUT_LINE_NUMBERS (initial_globals\<lparr>OUTPUT_LINE_NUMBERS := True\<rparr>)" by simp
  have l: "LINENR (initial_globals\<lparr>OUTPUT_LINE_NUMBERS := True\<rparr>) = 100"
    by (simp add: initial_globals_def)
  have s: "str_int 110 = ''110''" "str_int 120 = ''120''" by code_simp+
  note th = line_numbers [OF o, where ls = "[''G0'' @ NL, ''G53 X0 Y0'' @ NL]" and ou = "Str ''''"
              and t = "''G1''" and ts = "[''X1'']"]
  show ?thesis
    apply (simp only: th)
    apply (simp add: o l s spaced_def COMMAND_SPACE_def)
    done
qed

theorem first_line_number_counterexample:
  "LINENR initial_globals = 100 \<and>
   (case fst (export test_env [] ''-'' ''--no-header --no-comments --line-numbers''
                initial_globals test_io) of
      Inr (Some text) \<Rightarrow> take 5 text = ''N110 ''
    | _ \<Rightarrow> False)"
  by code_simp

section \<open>One call of export after another\<close>



lemma processArguments_counters:
  "LINENR (fst (snd (processArguments e a g w))) = LINENR g"
  "first_tool_change_skipped (fst (snd (processArguments e a g w))) = first_tool_change_skipped g"
  "SKIP_FIRST_TOOLCHANGE (fst (snd (processArguments e a g w))) = SKIP_FIRST_TOOLCHANGE g"
  by (cases "parse_args e a"; simp add: processArguments_def Let_def)+



lemma export_globals:
  assumes "export e objs fn a g w = (r, g', w')"
  shows "advances (fst (snd (processArguments e a g w))) g'"
proof -
  obtain b g1 w1 where pa: "processArguments e a g w = (b, g1, w1)"
    by (cases "processArguments e a g w") auto
  show ?thesis
    using assms pa
    by (auto simp: export_def advances_refl
             split: sum.splits bool.splits option.splits prod.splits
             dest: advances_export_gcode)
qed


lemma advances_LINENR: "advances g g' \<Longrightarrow> LINENR g \<le> LINENR g'"
  by (simp add: advances_def)

lemma add_numbered_strict:
  "add_numbered t gc g = (gc', g')
    \<Longrightarrow> OUTPUT_LINE_NUMBERS g \<Longrightarrow> LINENR g' = LINENR g + 10"
  by (auto simp: add_numbered_def linenumber_def)

lemma write_preamble_strict:
  assumes "write_preamble gcode g = (gcode', g')" and "OUTPUT_LINE_NUMBERS g"
  shows "LINENR g + 10 \<le> LINENR g'"
proof -
  obtain gc1 g1 where 1:
    "(if OUTPUT_COMMENTS g then add_numbered (''[Begin Preamble]'' @ NL) gcode g else (gcode, g))
       = (gc1, g1)"
    by (cases "if OUTPUT_COMMENTS g then add_numbered (''[Begin Preamble]'' @ NL) gcode g
               else (gcode, g)")
  have a1: "advances g g1"
    using 1 advances_add_numbered [of "''[Begin Preamble]'' @ NL" gcode g gc1 g1] advances_refl
    by (auto split: if_splits)
  obtain gc2 g2 where 2: "gcode_lines (splitlines (PREAMBLE g1) False) NL gc1 g1 = (gc2, g2)"
    by (cases "gcode_lines (splitlines (PREAMBLE g1) False) NL gc1 g1")
  have a2: "advances g1 g2" using 2 by (rule advances_gcode_lines)
  have 3: "add_numbered (UNITS g2 @ TAB @ TAB @ ''[Units: '' @ UNIT_FORMAT g2 @ '']'' @ NL @ NL)
             gc2 g2 = (gcode', g')"
    using assms(1) 1 2 by (simp add: write_preamble_def)
  have "OUTPUT_LINE_NUMBERS g2"
    using assms(2) advances_settings(3) [OF a1] advances_settings(3) [OF a2] by simp
  then have "LINENR g' = LINENR g2 + 10" using 3 add_numbered_strict by blast
  moreover have "LINENR g \<le> LINENR g2"
    using advances_LINENR [OF a1] advances_LINENR [OF a2] by simp
  ultimately show ?thesis by simp
qed

lemma export_gcode_strict:
  assumes "export_gcode e objs g = (Inr gcode, g')" and "OUTPUT_LINE_NUMBERS g"
  shows "LINENR g + 10 \<le> LINENR g'"
proof -
  obtain gc1 g1 where 1: "write_header e g = (gc1, g1)" by (cases "write_header e g")
  obtain gc2 g2 where 2: "write_preamble gc1 g1 = (gc2, g2)" by (cases "write_preamble gc1 g1")
  obtain r3 g3 where 3: "export_objects e objs gc2 g2 = (r3, g3)"
    by (cases "export_objects e objs gc2 g2")
  have a1: "advances g g1" using 1 by (rule advances_write_header)
  have a3: "advances g2 g3" using 3 by (rule advances_export_objects)
  have "OUTPUT_LINE_NUMBERS g1" using assms(2) advances_settings(3) [OF a1] by simp
  then have s: "LINENR g1 + 10 \<le> LINENR g2" using 2 write_preamble_strict by blast
  obtain gc3 where r3: "r3 = Inr gc3" using assms(1) 1 2 3
    by (cases r3) (simp_all add: export_gcode_def)
  obtain gc4 g4 where 4: "write_postamble gc3 g3 = (gc4, g4)" by (cases "write_postamble gc3 g3")
  have a4: "advances g3 g4" using 4 by (rule advances_write_postamble)
  have "g' = g4" using assms(1) 1 2 3 r3 4 by (simp add: export_gcode_def)
  then show ?thesis
    using s advances_LINENR [OF a1] advances_LINENR [OF a3] advances_LINENR [OF a4] by simp
qed

text \<open>
  C3 (as the code has it). The line counter and the tool-change flag are module-level variables
  that \<^verbatim>\<open>export\<close> never assigns back: a call starts from the values the previous call
  left (from 100 and false only for the first call after the module has been loaded), the counter
  never goes down, it has gone up by 10 at least after a call that numbered its lines and returned
  text, and the flag stays set once it is set. The last command and the tracked location are
  local variables of \<^verbatim>\<open>parse\<close>: every call of \<^verbatim>\<open>parse\<close> on a leaf, for a top-level
  object as for a member of a group, starts its loop from \<open>initial_locals\<close>, so they live for
  the commands of one leaf only.
\<close>

theorem export_keeps_counters:
  assumes "export e objs fn a g w = (r, g', w')"
  shows "LINENR g \<le> LINENR g' \<and>
         (first_tool_change_skipped g \<longrightarrow> first_tool_change_skipped g') \<and>
         (OUTPUT_LINE_NUMBERS g' \<and> r = Inr (Some text) \<longrightarrow> LINENR g + 10 \<le> LINENR g') \<and>
         parse e (PathObj nm lbl None (Some cs) act bs cm tool) g0
           = parse_Commands e tool cs initial_locals g0 \<and>
         parse_Group e (PathObj nm lbl None (Some cs) act bs cm tool # ps) ou g0
           = (case parse_Commands e tool cs initial_locals g0 of
                (Inl err, g1) \<Rightarrow> (Inl err, g1)
              | (Inr (Str s), g1) \<Rightarrow> parse_Group e ps (ou @ s) g1
              | (Inr (Lst l), g1) \<Rightarrow> (Inl TypeError, g1))"
proof -
  obtain b g1 w1 where pa: "processArguments e a g w = (b, g1, w1)"
    by (cases "processArguments e a g w") auto
  have adv: "advances g1 g'" using export_globals [OF assms] pa by simp
  have c: "LINENR g1 = LINENR g" "first_tool_change_skipped g1 = first_tool_change_skipped g"
    using processArguments_counters [of e a g w] pa by simp_all
  have 1: "LINENR g \<le> LINENR g'" using advances_LINENR [OF adv] c by simp
  have 2: "first_tool_change_skipped g \<longrightarrow> first_tool_change_skipped g'"
    using adv c by (simp add: advances_def)
  have 3: "OUTPUT_LINE_NUMBERS g' \<and> r = Inr (Some text) \<longrightarrow> LINENR g + 10 \<le> LINENR g'"
  proof
    assume h: "OUTPUT_LINE_NUMBERS g' \<and> r = Inr (Some text)"
    then have o: "OUTPUT_LINE_NUMBERS g1" using advances_settings(3) [OF adv] by simp
    have "\<exists>gcode. export_gcode e objs g1 = (Inr gcode, g')"
      using assms pa h
      by (auto simp: export_def split: sum.splits bool.splits option.splits prod.splits)
    then show "LINENR g + 10 \<le> LINENR g'" using export_gcode_strict o c by fastforce
  qed
  show ?thesis using 1 2 3 by simp
qed

theorem export_keeps_counters_witness:
  "LINENR initial_globals = 100 \<and>
   LINENR (fst (snd (export test_env [test_leaf ''op1'' [cmd ''M6'' [''T'' \<mapsto> 2]] (Some ''bit'')]
                       ''-'' ''--line-numbers'' initial_globals test_io))) = 230 \<and>
   OUTPUT_LINE_NUMBERS
     (fst (snd (export test_env [test_leaf ''op1'' [cmd ''M6'' [''T'' \<mapsto> 2]] (Some ''bit'')]
                  ''-'' ''--line-numbers'' initial_globals test_io))) \<and>
   first_tool_change_skipped
     (fst (snd (export test_env [test_leaf ''op1'' [cmd ''M6'' [''T'' \<mapsto> 2]] (Some ''bit'')]
                  ''-'' ''--line-numbers'' initial_globals test_io))) \<and>
   LINENR initial_globals + 10
     \<le> LINENR (fst (snd (export test_env [test_leaf ''op1'' [cmd ''M6'' [''T'' \<mapsto> 2]] (Some ''bit'')]
                       ''-'' ''--line-numbers'' initial_globals test_io)))"
proof -
  have ex: "export test_env [test_leaf ''op1'' [cmd ''M6'' [''T'' \<mapsto> 2]] (Some ''bit'')]
              ''-'' ''--line-numbers'' initial_globals test_io
            = (fst (export test_env [test_leaf ''op1'' [cmd ''M6'' [''T'' \<mapsto> 2]] (Some ''bit'')]
                      ''-'' ''--line-numbers'' initial_globals test_io),
               fst (snd (export test_env [test_leaf ''op1'' [cmd ''M6'' [''T'' \<mapsto> 2]] (Some ''bit'')]
                      ''-'' ''--line-numbers'' initial_globals test_io)),
               snd (snd (export test_env [test_leaf ''op1'' [cmd ''M6'' [''T'' \<mapsto> 2]] (Some ''bit'')]
                      ''-'' ''--line-numbers'' initial_globals test_io)))"
    by simp
  have v: "LINENR initial_globals = 100 \<and>
   LINENR (fst (snd (export test_env [test_leaf ''op1'' [cmd ''M6'' [''T'' \<mapsto> 2]] (Some ''bit'')]
                       ''-'' ''--line-numbers'' initial_globals test_io))) = 230 \<and>
   OUTPUT_LINE_NUMBERS
     (fst (snd (export test_env [test_leaf ''op1'' [cmd ''M6'' [''T'' \<mapsto> 2]] (Some ''bit'')]
                  ''-'' ''--line-numbers'' initial_globals test_io))) \<and>
   first_tool_change_skipped
     (fst (snd (export test_env [test_leaf ''op1'' [cmd ''M6'' [''T'' \<mapsto> 2]] (Some ''bit'')]
                  ''-'' ''--line-numbers'' initial_globals test_io)))"
    by code_simp
  show ?thesis
    using export_keeps_counters [OF ex] v by simp
qed

theorem state_not_fresh_counterexample:
  "fst (parse test_env
          (test_group ''job'' [test_leaf ''op1'' [cmd ''G1'' [''X'' \<mapsto> 25.4]] None,
                              test_leaf ''op2'' [cmd ''G1'' [''X'' \<mapsto> 50.8]] None])
          (initial_globals\<lparr>MODAL := True\<rparr>))
     = Inr (Str (''G1 X1 '' @ NL @ ''G1 X2 '' @ NL)) \<and>
   fst (parse test_env
          (test_leaf ''op1'' [cmd ''G1'' [''X'' \<mapsto> 25.4], cmd ''G1'' [''X'' \<mapsto> 50.8]] None)
          (initial_globals\<lparr>MODAL := True\<rparr>))
     = Inr (Str (''G1 X1 '' @ NL @ ''X2 '' @ NL)) \<and>
   LINENR (fst (snd (export test_env [] ''-'' ''--no-header --no-comments --line-numbers''
                       initial_globals test_io))) = 180 \<and>
   (case fst (export test_env [] ''-'' ''--no-header --no-comments --line-numbers''
                (fst (snd (export test_env [] ''-'' ''--no-header --no-comments --line-numbers''
                             initial_globals test_io)))
                (snd (snd (export test_env [] ''-'' ''--no-header --no-comments --line-numbers''
                             initial_globals test_io)))) of
      Inr (Some text) \<Rightarrow> take 5 text = ''N190 ''
    | _ \<Rightarrow> False) \<and>
   first_tool_change_skipped
     (fst (snd (export test_env [test_leaf ''op1'' [cmd ''M6'' [''T'' \<mapsto> 2]] (Some ''bit'')]
                  ''-'' '''' initial_globals test_io)))"
  by code_simp




end
